theory Spec2Isabelle
  imports Complex_Main "HOL-Library.Sublist"
begin

section \<open>Proxy gateway (proxy.js, the four \<open>app.get\<close> handlers)\<close>

subsection \<open>Data\<close>

text \<open>
  JSON values, as \<open>response.json()\<close> yields them and \<open>res.json\<close> sends them.
  An object is an association list in key order.
\<close>

datatype json =
    JNull
  | JBool bool
  | JNum real
  | JStr string
  | JArr "json list"
  | JObj "(string \<times> json) list"

text \<open>
  \<open>req.query\<close> restricted to the three keys the handlers destructure. A key that is
  not in the query string reads as \<open>undefined\<close> (\<open>None\<close>); \<open>?lat=\<close> reads as the
  empty string. Repeated or bracketed keys, which the query parser turns into arrays
  and objects, are outside this type.
\<close>

record query =
  satId :: "string option"
  lat :: "string option"
  lng :: "string option"

text \<open>
  What \<open>await fetch(url)\<close> gives: the promise rejects (network failure) with a message,
  or resolves to a response. The response carries \<open>ok\<close>, \<open>statusText\<close>, the result of
  \<open>await response.json()\<close> (\<open>None\<close> when the body is not JSON and the promise
  rejects) and the raw bytes that \<open>response.body\<close> streams.
\<close>

record 'j response =
  ok :: bool
  status :: nat
  statusText :: string
  json_body :: "'j option"
  raw_body :: string

datatype 'j fetch_result = Rejected string | Resolved "'j response"

text \<open>
  The exceptions of this program: a rejected \<open>fetch\<close>, \<open>new Error(message)\<close>, a
  rejected \<open>response.json()\<close>, and the \<open>TypeError\<close> of reading a property of
  \<open>undefined\<close>.
\<close>

datatype js_error =
    FetchError string
  | Error string
  | JsonParseError
  | TypeError

text \<open>What the caller receives: the status and either a JSON body or a piped byte stream.\<close>

datatype reply_body = JsonBody json | StreamBody string

record reply =
  statusCode :: nat
  body :: reply_body

text \<open>
  The observable effects of one handler run: the URLs passed to \<open>fetch\<close>, in order,
  the \<open>console.error\<close> lines (label and error), and the reply, if one was sent.
\<close>

record effects =
  fetched :: "string list"
  console :: "(string \<times> js_error) list"
  sent :: "reply option"

definition no_effects :: effects where
  "no_effects = \<lparr>fetched = [], console = [], sent = None\<rparr>"

subsection \<open>Constants and primitives\<close>

definition API_KEYS_N2YO :: string where
  "API_KEYS_N2YO = ''9UK5QD-3BZDNQ-KWUH2A-5KFI''"

definition API_KEYS_NASA :: string where
  "API_KEYS_NASA = ''69dIc1IkaKKMSRhmHXTC78gY0gZE5YHoThXBYWPo''"

definition API_KEYS_OPENWEATHER :: string where
  "API_KEYS_OPENWEATHER = ''bf997f92aee76cee24f92d4f8f4112e4''"

text \<open>\<open>!x\<close> on a query value: true for \<open>undefined\<close> and for the empty string.\<close>

definition falsy :: "string option \<Rightarrow> bool" where
  "falsy x = (case x of None \<Rightarrow> True | Some s \<Rightarrow> s = [])"

text \<open>\<open>${x}\<close> in a template literal.\<close>

definition interp :: "string option \<Rightarrow> string" where
  "interp x = (case x of None \<Rightarrow> ''undefined'' | Some s \<Rightarrow> s)"

text \<open>\<open>res.status(c).json({ error: msg })\<close> and \<open>res.json(data)\<close> (status 200).\<close>

definition error_json :: "string \<Rightarrow> json" where
  "error_json msg = JObj [(''error'', JStr msg)]"

definition res_status_json :: "nat \<Rightarrow> json \<Rightarrow> effects \<Rightarrow> effects" where
  "res_status_json c j w = w\<lparr>sent := Some \<lparr>statusCode = c, body = JsonBody j\<rparr>\<rparr>"

definition res_json :: "json \<Rightarrow> effects \<Rightarrow> effects" where
  "res_json j w = res_status_json 200 j w"

text \<open>\<open>response.body.pipe(res)\<close>: the bytes of the upstream body, status 200.\<close>

definition pipe :: "string \<Rightarrow> effects \<Rightarrow> effects" where
  "pipe bytes w = w\<lparr>sent := Some \<lparr>statusCode = 200, body = StreamBody bytes\<rparr>\<rparr>"

definition console_error :: "string \<Rightarrow> js_error \<Rightarrow> effects \<Rightarrow> effects" where
  "console_error label e w = w\<lparr>console := console w @ [(label, e)]\<rparr>"

text \<open>
  \<open>await fetch(url)\<close>: records the call, then throws when the promise rejects.
\<close>

definition await_fetch ::
  "(string \<Rightarrow> json fetch_result) \<Rightarrow> string \<Rightarrow> effects \<Rightarrow> (js_error + json response) \<times> effects" where
  "await_fetch fetch url w =
     (case fetch url of
        Rejected m \<Rightarrow> (Inl (FetchError m), w\<lparr>fetched := fetched w @ [url]\<rparr>)
      | Resolved r \<Rightarrow> (Inr r, w\<lparr>fetched := fetched w @ [url]\<rparr>))"

text \<open>
  The common tail of the three JSON handlers, lines 37-42, 57-62 and 98-102:
  fetch, throw on \<open>!response.ok\<close>, parse, \<open>res.json(data)\<close>.
  \<open>Inl e\<close> is the exception that reaches the handler's \<open>catch\<close>.
\<close>

definition fetch_and_relay_json ::
  "(string \<Rightarrow> json fetch_result) \<Rightarrow> string \<Rightarrow> string \<Rightarrow> effects \<Rightarrow> js_error option \<times> effects" where
  "fetch_and_relay_json fetch url api w =
     (case await_fetch fetch url w of
        (Inl e, w1) \<Rightarrow> (Some e, w1)
      | (Inr r, w1) \<Rightarrow>
          if \<not> ok r then (Some (Error (api @ '' API Error: '' @ statusText r)), w1)
          else (case json_body r of
                  None \<Rightarrow> (Some JsonParseError, w1)
                | Some data \<Rightarrow> (None, res_json data w1)))"

text \<open>The \<open>catch\<close> block: log, then \<open>res.status(500).json({ error: msg })\<close>.\<close>

definition catch :: "string \<Rightarrow> string \<Rightarrow> js_error option \<times> effects \<Rightarrow> effects" where
  "catch label msg r =
     (case r of
        (None, w) \<Rightarrow> w
      | (Some e, w) \<Rightarrow> res_status_json 500 (error_json msg) (console_error label e w))"

subsection \<open>The handlers\<close>

text \<open>The URL templates of lines 36, 56, 77 (with \<open>dim = 0.2\<close>) and 97.\<close>

definition above_url :: "query \<Rightarrow> string" where
  "above_url q =
     ''https://api.n2yo.com/rest/v1/satellite/above/'' @ interp (lat q) @ ''/''
     @ interp (lng q) @ ''/0/70/0/?apiKey='' @ API_KEYS_N2YO"

definition passes_url :: "query \<Rightarrow> string" where
  "passes_url q =
     ''https://api.n2yo.com/rest/v1/satellite/radiopasses/'' @ interp (satId q) @ ''/''
     @ interp (lat q) @ ''/'' @ interp (lng q) @ ''/0/7/10/?apiKey='' @ API_KEYS_N2YO"

definition earth_image_url :: "query \<Rightarrow> string" where
  "earth_image_url q =
     ''https://api.nasa.gov/planetary/earth/imagery?lat='' @ interp (lat q) @ ''&lon=''
     @ interp (lng q) @ ''&dim='' @ ''0.2'' @ ''&api_key='' @ API_KEYS_NASA"

definition weather_url :: "query \<Rightarrow> string" where
  "weather_url q =
     ''https://api.openweathermap.org/data/2.5/weather?lat='' @ interp (lat q) @ ''&lon=''
     @ interp (lng q) @ ''&units=metric&appid='' @ API_KEYS_OPENWEATHER"

definition api_n2yo_above :: "(string \<Rightarrow> json fetch_result) \<Rightarrow> query \<Rightarrow> effects" where
  "api_n2yo_above fetch q =
     catch ''N2YO Above error:'' ''Failed to fetch satellite data.''
       (if falsy (lat q) \<or> falsy (lng q) then
          (None, res_status_json 400 (error_json ''Latitude and longitude are required.'') no_effects)
        else fetch_and_relay_json fetch (above_url q) ''N2YO'' no_effects)"

definition api_n2yo_passes :: "(string \<Rightarrow> json fetch_result) \<Rightarrow> query \<Rightarrow> effects" where
  "api_n2yo_passes fetch q =
     catch ''N2YO Passes error:'' ''Failed to fetch pass data.''
       (if falsy (satId q) \<or> falsy (lat q) \<or> falsy (lng q) then
          (None, res_status_json 400
                   (error_json ''Satellite ID, latitude, and longitude are required.'') no_effects)
        else fetch_and_relay_json fetch (passes_url q) ''N2YO'' no_effects)"

definition api_nasa_earth_image :: "(string \<Rightarrow> json fetch_result) \<Rightarrow> query \<Rightarrow> effects" where
  "api_nasa_earth_image fetch q =
     catch ''NASA Earth Image error:'' ''Failed to fetch NASA image.''
       (if falsy (lat q) \<or> falsy (lng q) then
          (None, res_status_json 400 (error_json ''Latitude and longitude are required.'') no_effects)
        else
          case await_fetch fetch (earth_image_url q) no_effects of
            (Inl e, w1) \<Rightarrow> (Some e, w1)
          | (Inr r, w1) \<Rightarrow>
              if \<not> ok r then (Some (Error (''NASA API Error: '' @ statusText r)), w1)
              else (None, pipe (raw_body r) w1))"

definition api_weather :: "(string \<Rightarrow> json fetch_result) \<Rightarrow> query \<Rightarrow> effects" where
  "api_weather fetch q =
     catch ''Weather error:'' ''Failed to fetch weather data.''
       (if falsy (lat q) \<or> falsy (lng q) then
          (None, res_status_json 400 (error_json ''Latitude and longitude are required.'') no_effects)
        else fetch_and_relay_json fetch (weather_url q) ''OpenWeatherMap'' no_effects)"

text \<open>The routing table of the four API routes.\<close>

datatype endpoint = N2yoAbove | N2yoPasses | NasaEarthImage | Weather

definition gateway :: "endpoint \<Rightarrow> (string \<Rightarrow> json fetch_result) \<Rightarrow> query \<Rightarrow> effects" where
  "gateway e fetch q =
     (case e of
        N2yoAbove \<Rightarrow> api_n2yo_above fetch q
      | N2yoPasses \<Rightarrow> api_n2yo_passes fetch q
      | NasaEarthImage \<Rightarrow> api_nasa_earth_image fetch q
      | Weather \<Rightarrow> api_weather fetch q)"

section \<open>Map client (proxy.js, class \<open>SatelliteExplorer\<close>)\<close>

subsection \<open>Platform functions\<close>

text \<open>
  Library functions of the JavaScript platform whose results depend on floating point,
  on the locale or on Unicode are parameters of the model: \<open>Number.prototype.toFixed\<close>,
  \<open>Number.prototype.toLocaleString\<close>, \<open>Date.prototype.toLocaleString\<close> and
  \<open>toLocaleDateString\<close> (on the milliseconds of the date), \<open>Math.sin\<close>,
  \<open>Math.cos\<close>, \<open>Math.PI\<close>, and \<open>String.prototype.trim\<close>, which strips every
  Unicode white space and line terminator from both ends. JavaScript numbers are read
  as the reals they denote.
\<close>

record platform =
  toFixed :: "real \<Rightarrow> nat \<Rightarrow> string"
  Number_toLocaleString :: "real \<Rightarrow> string"
  Date_toLocaleString :: "real \<Rightarrow> string"
  Date_toLocaleDateString :: "real \<Rightarrow> string"
  Math_sin :: "real \<Rightarrow> real"
  Math_cos :: "real \<Rightarrow> real"
  Math_PI :: real
  String_trim :: "string \<Rightarrow> string"

text \<open>\<open>Math.round\<close>: the nearest integer, a tie going up.\<close>

definition Math_round :: "real \<Rightarrow> int" where
  "Math_round x = \<lfloor>x + 1 / 2\<rfloor>"

text \<open>\<open>${n}\<close> for a non-negative integer.\<close>

fun show_nat :: "nat \<Rightarrow> string" where
  "show_nat n =
     (if n < 10 then [char_of (48 + n)] else show_nat (n div 10) @ [char_of (48 + n mod 10)])"

declare show_nat.simps [simp del]

subsection \<open>Payloads\<close>

text \<open>
  The JSON payloads the client reads, typed by the fields it reads. A field the code
  tests before use is an option (\<open>None\<close> for \<open>undefined\<close>).
\<close>

record sat =
  satid :: int
  satname :: string
  satalt :: "real option"

record above_data =
  above :: "sat list option"

record pass =
  startUTC :: real
  duration :: real
  maxEl :: real

record passes_data =
  passes :: "pass list option"

record weather_condition =
  description :: string

record weather_main =
  temp :: real
  humidity :: real

record weather_wind =
  speed :: real

text \<open>\<open>loc_name\<close> is the payload's \<open>name\<close>.\<close>

record weather_data =
  loc_name :: "string option"
  weather :: "weather_condition list"
  main :: weather_main
  wind :: weather_wind
  visibility :: "real option"

type_synonym latlng = "real \<times> real"

text \<open>
  \<open>capitalInfo_latlng\<close> is the value of \<open>country.capitalInfo?.latlng\<close>, and
  \<open>name_common\<close> that of \<open>country.name.common\<close>.
\<close>

record country =
  name_common :: string
  flag :: "string option"
  capitalInfo_latlng :: "latlng option"
  latlng :: "latlng option"
  capital :: "string list option"
  population :: "real option"
  area :: "real option"

subsection \<open>What is rendered\<close>

text \<open>
  A template literal is modelled by the values of its holes, in the order of the
  template; the fixed markup around them is not repeated.
\<close>

record pass_popup =
  pp_name :: string
  pp_next_pass :: string
  pp_duration :: int
  pp_max_elevation :: real
  pp_status_class :: string
  pp_status_text :: string

record country_popup =
  cp_name :: string
  cp_flag :: string
  cp_capital :: string
  cp_population :: string
  cp_area :: string

datatype popup = NoPopup | PassPopup pass_popup | CountryPopup country_popup

text \<open>The \<open>html\<close> of a marker's \<open>divIcon\<close>.\<close>

datatype icon_html = StationIcon | StartLabel | EndLabel | CountryFlag string

text \<open>
  What \<open>satMarkersLayer\<close> holds: markers (position, icon class, icon html, bound
  popup) and polylines.
\<close>

datatype layer = Marker latlng string icon_html popup | Polyline "latlng list"

record sat_item =
  item_name :: string
  item_id :: int
  item_altitude :: string

text \<open>\<open>innerHTML\<close> of the \<open>satList\<close> container.\<close>

datatype sat_list_html = Blank | NoSatellites | SatelliteItems "sat_item list"

record weather_panel =
  wp_location :: string
  wp_condition :: string
  wp_temp :: int
  wp_windSpeed :: real
  wp_humidity :: real
  wp_visibility :: string

text \<open>\<open>innerHTML\<close> of \<open>weatherBox\<close>.\<close>

datatype weather_html = NoWeather | WeatherData weather_panel | WeatherError

datatype map_view = SetView latlng nat | FitBounds latlng latlng

record button =
  textContent :: string
  disabled :: bool

text \<open>
  The state of the explorer and of the page elements its methods read and write.
  \<open>alerts\<close> lists the alert elements appended to the page (message and type), and
  \<open>errors\<close> the \<open>console.error\<close> lines.
\<close>

record explorer =
  latInput :: string
  lngInput :: string
  countryInput :: string
  currentLocation :: latlng
  mapView :: map_view
  satMarkersLayer :: "layer list"
  satList :: sat_list_html
  weatherBox :: weather_html
  locationStatus :: string
  alerts :: "(string \<times> string) list"
  errors :: "(string \<times> js_error) list"
  findAboveBtn :: button
  countryBtn :: button

subsection \<open>Helpers\<close>

definition showAlert :: "string \<Rightarrow> string \<Rightarrow> explorer \<Rightarrow> explorer" where
  "showAlert message kind s = s\<lparr>alerts := alerts s @ [(message, kind)]\<rparr>"

definition updateLocationStatus :: "string \<Rightarrow> explorer \<Rightarrow> explorer" where
  "updateLocationStatus message s = s\<lparr>locationStatus := message\<rparr>"

definition log_error :: "string \<Rightarrow> js_error \<Rightarrow> explorer \<Rightarrow> explorer" where
  "log_error label e s = s\<lparr>errors := errors s @ [(label, e)]\<rparr>"

definition clearLayers :: "explorer \<Rightarrow> explorer" where
  "clearLayers s = s\<lparr>satMarkersLayer := []\<rparr>"

definition addTo :: "layer \<Rightarrow> explorer \<Rightarrow> explorer" where
  "addTo l s = s\<lparr>satMarkersLayer := satMarkersLayer s @ [l]\<rparr>"

subsection \<open>Scan overhead\<close>

text \<open>
  \<open>renderSatelliteList(satellites)\<close>, lines 359-395. Each list item keeps the id and
  the name its click handler passes to \<open>trackSatelliteById\<close>.
\<close>

definition renderSatelliteList :: "platform \<Rightarrow> sat list \<Rightarrow> explorer \<Rightarrow> explorer" where
  "renderSatelliteList pf satellites s =
     (let s1 = s\<lparr>satList := Blank\<rparr> in
      if length satellites = 0 then s1\<lparr>satList := NoSatellites\<rparr>
      else s1\<lparr>satList := SatelliteItems
             (map (\<lambda>x. \<lparr>item_name = satname x, item_id = satid x,
                         item_altitude =
                           (case satalt x of
                              None \<Rightarrow> ''Altitude unknown''
                            | Some a \<Rightarrow> if a = 0 then ''Altitude unknown''
                                        else toFixed pf a 0 @ '' km altitude'')\<rparr>)
                  satellites)\<rparr>)"

text \<open>
  \<open>findSatellitesAbove()\<close>, lines 326-357. The argument \<open>outcome\<close> is what the one
  \<open>await fetch(...)\<close> of the method gives; the URL is not modelled. The \<open>try\<close> block
  yields \<open>Inl (e, s)\<close> when it throws \<open>e\<close> in state \<open>s\<close>.
\<close>

definition findSatellitesAbove ::
  "platform \<Rightarrow> above_data fetch_result \<Rightarrow> explorer \<Rightarrow> explorer" where
  "findSatellitesAbove pf outcome s =
     (if latInput s = [] \<or> lngInput s = [] then
        showAlert ''Please set your location coordinates first'' ''warning'' s
      else
        let originalText = textContent (findAboveBtn s);
            s1 = s\<lparr>findAboveBtn := \<lparr>textContent = ''Scanning Orbital Space...'', disabled = True\<rparr>\<rparr>;
            tried =
              (case outcome of
                 Rejected m \<Rightarrow> Inl (FetchError m, s1)
               | Resolved r \<Rightarrow>
                   if \<not> ok r then Inl (Error (''API Error: '' @ show_nat (status r)), s1)
                   else (case json_body r of
                           None \<Rightarrow> Inl (JsonParseError, s1)
                         | Some data \<Rightarrow>
                             let s2 = renderSatelliteList pf
                                        (case above data of None \<Rightarrow> [] | Some xs \<Rightarrow> xs) s1
                             in Inr (case above data of
                                       None \<Rightarrow> s2
                                     | Some xs \<Rightarrow>
                                         if length xs > 0 then
                                           updateLocationStatus
                                             (''Found '' @ show_nat (length xs) @ '' satellites overhead'') s2
                                         else s2)));
            s3 = (case tried of
                    Inr s' \<Rightarrow> s'
                  | Inl (e, s') \<Rightarrow>
                      showAlert ''Unable to retrieve satellite data. Check your connection.'' ''error''
                        (log_error ''Satellite tracking error:'' e s'))
        in s3\<lparr>findAboveBtn := \<lparr>textContent = originalText, disabled = False\<rparr>\<rparr>)"

subsection \<open>Track pass\<close>

text \<open>\<open>createPassPopup(name, pass, passTime)\<close>, lines 454-480.\<close>

definition createPassPopup :: "platform \<Rightarrow> string \<Rightarrow> pass \<Rightarrow> real \<Rightarrow> pass_popup" where
  "createPassPopup pf name p passTime =
     (let dur = Math_round (duration p);
          maxElevation = maxEl p
      in \<lparr>pp_name = name,
          pp_next_pass = Date_toLocaleString pf passTime,
          pp_duration = dur,
          pp_max_elevation = maxElevation,
          pp_status_class =
            (if maxElevation > 30 then ''excellent''
             else if maxElevation > 15 then ''good'' else ''fair''),
          pp_status_text =
            (if maxElevation > 30 then ''Excellent visibility''
             else if maxElevation > 15 then ''Good visibility'' else ''Fair visibility'')\<rparr>)"

text \<open>
  \<open>visualizeSatellitePass(pass, lat, lng)\<close>, lines 482-518: 21 points of a fixed
  curve around the location, a start and an end marker.
\<close>

definition trackPoints :: "platform \<Rightarrow> real \<Rightarrow> real \<Rightarrow> latlng list" where
  "trackPoints pf lat' lng' =
     map (\<lambda>i. let progress = real i / 20
              in (lat' + Math_sin pf (progress * Math_PI pf) * 0.5,
                  lng' + Math_cos pf (progress * Math_PI pf * 2) * 0.8))
         [0 ..< 21]"

definition visualizeSatellitePass ::
  "platform \<Rightarrow> pass \<Rightarrow> real \<Rightarrow> real \<Rightarrow> explorer \<Rightarrow> explorer" where
  "visualizeSatellitePass pf p lat' lng' s =
     (let pts = trackPoints pf lat' lng'
      in addTo (Marker (pts ! (length pts - 1)) ''pass-marker end-marker'' EndLabel NoPopup)
           (addTo (Marker (pts ! 0) ''pass-marker start-marker'' StartLabel NoPopup)
              (addTo (Polyline pts) s)))"

text \<open>
  \<open>trackSatelliteById(satId, name)\<close>, lines 407-452; \<open>satId\<close> only goes into the
  URL, which is not modelled. The popup is bound to the ground marker after the
  track is drawn; the marker is shown here with its popup.
\<close>

definition trackSatelliteById ::
  "platform \<Rightarrow> passes_data fetch_result \<Rightarrow> string \<Rightarrow> explorer \<Rightarrow> explorer" where
  "trackSatelliteById pf outcome name s =
     (let (lat', lng') = currentLocation s;
          tried =
            (case outcome of
               Rejected m \<Rightarrow> Inl (FetchError m, s)
             | Resolved r \<Rightarrow>
                 if \<not> ok r then Inl (Error (''Pass prediction error: '' @ show_nat (status r)), s)
                 else (case json_body r of
                         None \<Rightarrow> Inl (JsonParseError, s)
                       | Some data \<Rightarrow>
                           (case passes data of
                              None \<Rightarrow>
                                Inr (showAlert (''No upcoming passes found for '' @ name) ''info'' s)
                            | Some [] \<Rightarrow>
                                Inr (showAlert (''No upcoming passes found for '' @ name) ''info'' s)
                            | Some (p # rest) \<Rightarrow>
                                let passTime = startUTC p * 1000;
                                    popupContent = createPassPopup pf name p passTime;
                                    s1 = clearLayers s;
                                    s2 = addTo (Marker (lat', lng') ''ground-station-marker'' StationIcon
                                                  (PassPopup popupContent)) s1;
                                    s3 = visualizeSatellitePass pf p lat' lng' s2;
                                    s4 = s3\<lparr>mapView := SetView (lat', lng') 8\<rparr>
                                in Inr (updateLocationStatus
                                          (''Tracking '' @ name @ '' - Next pass: ''
                                             @ Date_toLocaleDateString pf passTime) s4))))
      in case tried of
           Inr s' \<Rightarrow> s'
         | Inl (e, s') \<Rightarrow>
             showAlert ''Unable to predict satellite passes'' ''error''
               (log_error ''Pass prediction error:'' e s'))"

subsection \<open>Weather refresh\<close>

text \<open>
  \<open>displayWeatherData(data)\<close>, lines 585-619. With an empty \<open>data.weather\<close>,
  \<open>condition\<close> is \<open>undefined\<close> and the template throws before the box is written.
\<close>

definition displayWeatherData ::
  "platform \<Rightarrow> weather_data \<Rightarrow> explorer \<Rightarrow> js_error \<times> explorer + explorer" where
  "displayWeatherData pf data s =
     (case weather data of
        [] \<Rightarrow> Inl (TypeError, s)
      | condition # rest \<Rightarrow>
          Inr (s\<lparr>weatherBox := WeatherData
                 \<lparr>wp_location =
                    (case loc_name data of
                       None \<Rightarrow> ''Current Location''
                     | Some n \<Rightarrow> if n = [] then ''Current Location'' else n),
                  wp_condition = description condition,
                  wp_temp = Math_round (temp (main data)),
                  wp_windSpeed = speed (wind data),
                  wp_humidity = humidity (main data),
                  wp_visibility =
                    (case visibility data of
                       None \<Rightarrow> ''N/A''
                     | Some v \<Rightarrow> if v = 0 then ''N/A'' else toFixed pf (v / 1000) 1)\<rparr>\<rparr>))"

text \<open>\<open>fetchWeatherData(lat, lng)\<close>, lines 566-583.\<close>

definition fetchWeatherData ::
  "platform \<Rightarrow> weather_data fetch_result \<Rightarrow> explorer \<Rightarrow> explorer" where
  "fetchWeatherData pf outcome s =
     (let tried =
            (case outcome of
               Rejected m \<Rightarrow> Inl (FetchError m, s)
             | Resolved r \<Rightarrow>
                 if \<not> ok r then Inl (Error (''Weather API Error: '' @ show_nat (status r)), s)
                 else (case json_body r of
                         None \<Rightarrow> Inl (JsonParseError, s)
                       | Some data \<Rightarrow> displayWeatherData pf data s))
      in case tried of
           Inr s' \<Rightarrow> s'
         | Inl (e, s') \<Rightarrow> (log_error ''Weather data error:'' e s')\<lparr>weatherBox := WeatherError\<rparr>)"

subsection \<open>Country search\<close>

text \<open>The glyph U+1F3DB U+FE0F and the superscript two of \<open>km2\<close>, in UTF-8.\<close>

definition default_flag :: string where
  "default_flag = [CHR 0xF0, CHR 0x9F, CHR 0x8F, CHR 0x9B, CHR 0xEF, CHR 0xB8, CHR 0x8F]"

definition km2 :: string where
  "km2 = '' km'' @ [CHR 0xC2, CHR 0xB2]"

text \<open>\<open>createCountryPopup(country)\<close>, lines 674-698.\<close>

definition createCountryPopup :: "platform \<Rightarrow> country \<Rightarrow> country_popup" where
  "createCountryPopup pf c =
     \<lparr>cp_name = name_common c,
      cp_flag = (case flag c of None \<Rightarrow> [] | Some f \<Rightarrow> f),
      cp_capital =
        (case capital c of
           None \<Rightarrow> ''Not specified''
         | Some [] \<Rightarrow> ''Not specified''
         | Some (x # xs) \<Rightarrow> if x = [] then ''Not specified'' else x),
      cp_population =
        (case population c of
           None \<Rightarrow> ''Unknown''
         | Some n \<Rightarrow> if n = 0 then ''Unknown'' else Number_toLocaleString pf n),
      cp_area =
        (case area c of
           None \<Rightarrow> ''Unknown''
         | Some a \<Rightarrow> if a = 0 then ''Unknown'' else Number_toLocaleString pf a @ km2)\<rparr>"

text \<open>
  \<open>searchCountry()\<close>, lines 622-672. \<open>outcome\<close> is what the request to the country
  service gives. With an empty array, \<open>country\<close> is \<open>undefined\<close> and reading
  \<open>country.capitalInfo\<close> throws.
\<close>

definition searchCountry ::
  "platform \<Rightarrow> country list fetch_result \<Rightarrow> explorer \<Rightarrow> explorer" where
  "searchCountry pf outcome s =
     (let countryName = String_trim pf (countryInput s) in
      if countryName = [] then showAlert ''Please enter a country name'' ''warning'' s
      else
        let originalText = textContent (countryBtn s);
            s1 = s\<lparr>countryBtn := \<lparr>textContent = ''Locating...'', disabled = True\<rparr>\<rparr>;
            tried =
              (case outcome of
                 Rejected m \<Rightarrow> Inl (FetchError m, s1)
               | Resolved r \<Rightarrow>
                   if \<not> ok r then Inl (Error ''Country not found'', s1)
                   else (case json_body r of
                           None \<Rightarrow> Inl (JsonParseError, s1)
                         | Some [] \<Rightarrow> Inl (TypeError, s1)
                         | Some (c # rest) \<Rightarrow>
                             (case (case capitalInfo_latlng c of
                                      Some ll \<Rightarrow> Some ll
                                    | None \<Rightarrow> latlng c) of
                                None \<Rightarrow> Inl (Error ''Coordinates not available'', s1)
                              | Some (a, b) \<Rightarrow>
                                  let s2 = s1\<lparr>mapView := FitBounds (a - 3, b - 3) (a + 3, b + 3)\<rparr>;
                                      s3 = clearLayers s2;
                                      popupContent = createCountryPopup pf c;
                                      s4 = addTo (Marker (a, b) ''country-marker''
                                                    (CountryFlag
                                                       (case flag c of
                                                          None \<Rightarrow> default_flag
                                                        | Some f \<Rightarrow> if f = [] then default_flag else f))
                                                    (CountryPopup popupContent)) s3
                                  in Inr (updateLocationStatus (''Located: '' @ name_common c) s4))));
            s5 = (case tried of
                    Inr s' \<Rightarrow> s'
                  | Inl (e, s') \<Rightarrow>
                      showAlert ''Country not found. Please check spelling.'' ''error''
                        (log_error ''Country search error:'' e s'))
        in s5\<lparr>countryBtn := \<lparr>textContent = originalText, disabled = False\<rparr>\<rparr>)"

section \<open>Vocabulary of the properties\<close>

text \<open>
  The required parameters of a route are present when the route's test
  \<open>!lat || !lng\<close> (with \<open>!satId\<close> on the pass route) is false.
\<close>

definition required_present :: "endpoint \<Rightarrow> query \<Rightarrow> bool" where
  "required_present e q =
     (\<not> falsy (lat q) \<and> \<not> falsy (lng q) \<and> (if e = N2yoPasses then \<not> falsy (satId q) else True))"

text \<open>Per route: the URL template, the key it names, and the strings of its two error replies
  and of its log line.\<close>

definition upstream_url :: "endpoint \<Rightarrow> query \<Rightarrow> string" where
  "upstream_url e q =
     (case e of
        N2yoAbove \<Rightarrow> above_url q
      | N2yoPasses \<Rightarrow> passes_url q
      | NasaEarthImage \<Rightarrow> earth_image_url q
      | Weather \<Rightarrow> weather_url q)"

definition credential :: "endpoint \<Rightarrow> string" where
  "credential e =
     (case e of
        N2yoAbove \<Rightarrow> API_KEYS_N2YO
      | N2yoPasses \<Rightarrow> API_KEYS_N2YO
      | NasaEarthImage \<Rightarrow> API_KEYS_NASA
      | Weather \<Rightarrow> API_KEYS_OPENWEATHER)"

definition validation_message :: "endpoint \<Rightarrow> string" where
  "validation_message e =
     (case e of
        N2yoAbove \<Rightarrow> ''Latitude and longitude are required.''
      | N2yoPasses \<Rightarrow> ''Satellite ID, latitude, and longitude are required.''
      | NasaEarthImage \<Rightarrow> ''Latitude and longitude are required.''
      | Weather \<Rightarrow> ''Latitude and longitude are required.'')"

definition failure_message :: "endpoint \<Rightarrow> string" where
  "failure_message e =
     (case e of
        N2yoAbove \<Rightarrow> ''Failed to fetch satellite data.''
      | N2yoPasses \<Rightarrow> ''Failed to fetch pass data.''
      | NasaEarthImage \<Rightarrow> ''Failed to fetch NASA image.''
      | Weather \<Rightarrow> ''Failed to fetch weather data.'')"

definition log_label :: "endpoint \<Rightarrow> string" where
  "log_label e =
     (case e of
        N2yoAbove \<Rightarrow> ''N2YO Above error:''
      | N2yoPasses \<Rightarrow> ''N2YO Passes error:''
      | NasaEarthImage \<Rightarrow> ''NASA Earth Image error:''
      | Weather \<Rightarrow> ''Weather error:'')"

definition api_name :: "endpoint \<Rightarrow> string" where
  "api_name e =
     (case e of
        N2yoAbove \<Rightarrow> ''N2YO''
      | N2yoPasses \<Rightarrow> ''N2YO''
      | NasaEarthImage \<Rightarrow> ''NASA''
      | Weather \<Rightarrow> ''OpenWeatherMap'')"

text \<open>The upstream call fails: the promise rejects, or the response is not \<open>ok\<close>.\<close>

definition upstream_fails :: "'j fetch_result \<Rightarrow> bool" where
  "upstream_fails x = (case x of Rejected m \<Rightarrow> True | Resolved r \<Rightarrow> \<not> ok r)"

section \<open>Sample inputs\<close>

definition upstream_down :: "string \<Rightarrow> json fetch_result" where
  "upstream_down url = Rejected ''ECONNREFUSED''"

definition upstream_forbidden :: "string \<Rightarrow> json fetch_result" where
  "upstream_forbidden url =
     Resolved \<lparr>ok = False, status = 403, statusText = ''Forbidden'',
               json_body = Some (JObj [(''error'', JStr ''Invalid API Key!'')]), raw_body = []\<rparr>"

definition upstream_image :: "string \<Rightarrow> json fetch_result" where
  "upstream_image url =
     Resolved \<lparr>ok = True, status = 200, statusText = ''OK'', json_body = None,
               raw_body = [CHR 0x89, CHR ''P'', CHR ''N'', CHR ''G'', CHR 0x0D, CHR 0x0A]\<rparr>"

definition q_egypt :: query where
  "q_egypt = \<lparr>satId = Some ''25544'', lat = Some ''26.1626'', lng = Some ''32.7094''\<rparr>"

definition q_no_lat :: query where
  "q_no_lat = \<lparr>satId = Some ''25544'', lat = None, lng = Some ''32.7094''\<rparr>"

definition q_no_satId :: query where
  "q_no_satId = \<lparr>satId = None, lat = Some ''26.1626'', lng = Some ''32.7094''\<rparr>"

definition q_odd :: query where
  "q_odd = \<lparr>satId = Some ''25544'', lat = Some ''999'', lng = Some ''abc''\<rparr>"

text \<open>
  A platform for the sample inputs below: sine, cosine and pi are the real ones, and
  the formatting functions and \<open>trim\<close> are constant, with the strings an en-US
  platform in UTC gives for the numbers, the date and the country input of these
  samples.
\<close>

definition sample_platform :: platform where
  "sample_platform =
     \<lparr>toFixed = (\<lambda>x d. ''10.0''),
      Number_toLocaleString = (\<lambda>x. ''1,000''),
      Date_toLocaleString = (\<lambda>t. ''1/1/2027, 12:00:00 AM''),
      Date_toLocaleDateString = (\<lambda>t. ''1/1/2027''),
      Math_sin = sin,
      Math_cos = cos,
      Math_PI = pi,
      String_trim = (\<lambda>x. ''Atlantis'')\<rparr>"

text \<open>A state of the explorer with one marker on the layer, and payloads.\<close>

definition s0 :: explorer where
  "s0 =
     \<lparr>latInput = ''26.162600'', lngInput = ''32.709400'', countryInput = '' Atlantis '',
      currentLocation = (26.1626, 32.7094),
      mapView = SetView (26.1626, 32.7094) 5,
      satMarkersLayer = [Marker (26.1626, 32.7094) ''ground-station-marker'' StationIcon NoPopup],
      satList = Blank, weatherBox = NoWeather,
      locationStatus = ''Default coordinates loaded (Egypt)'',
      alerts = [], errors = [],
      findAboveBtn = \<lparr>textContent = ''Scan Overhead Satellites'', disabled = False\<rparr>,
      countryBtn = \<lparr>textContent = ''Search'', disabled = False\<rparr>\<rparr>"

definition sample_pass :: "real \<Rightarrow> pass" where
  "sample_pass el = \<lparr>startUTC = 1798761600, duration = 612.4, maxEl = el\<rparr>"

definition ok_with :: "'j \<Rightarrow> 'j response" where
  "ok_with d =
     \<lparr>ok = True, status = 200, statusText = ''OK'', json_body = Some d, raw_body = []\<rparr>"

definition not_found :: "'j response" where
  "not_found =
     \<lparr>ok = False, status = 404, statusText = ''Not Found'', json_body = None, raw_body = []\<rparr>"

definition atlantis :: country where
  "atlantis =
     \<lparr>name_common = ''Atlantis'', flag = None, capitalInfo_latlng = None, latlng = None,
      capital = None, population = None, area = None\<rparr>"

definition egypt :: country where
  "egypt =
     \<lparr>name_common = ''Egypt'', flag = None, capitalInfo_latlng = Some (30.05, 31.25),
      latlng = Some (27, 30), capital = Some [''Cairo''], population = Some 102334403,
      area = Some 1002450\<rparr>"

definition qena_weather :: "real option \<Rightarrow> weather_data" where
  "qena_weather v =
     \<lparr>loc_name = Some ''Qena'', weather = [\<lparr>description = ''clear sky''\<rparr>],
      main = \<lparr>temp = 31.6, humidity = 18\<rparr>, wind = \<lparr>speed = 3.6\<rparr>, visibility = v\<rparr>"

section \<open>Properties of the gateway\<close>

subsection \<open>The replies of a route, case by case\<close>

lemmas io_defs =
  catch_def fetch_and_relay_json_def await_fetch_def res_status_json_def res_json_def
  pipe_def console_error_def no_effects_def error_json_def

lemmas route_defs =
  gateway_def api_n2yo_above_def api_n2yo_passes_def api_nasa_earth_image_def api_weather_def

lemma gateway_invalid:
  "\<not> required_present e q \<Longrightarrow>
   gateway e fetch q =
     \<lparr>fetched = [], console = [],
      sent = Some \<lparr>statusCode = 400, body = JsonBody (JObj [(''error'', JStr (validation_message e))])\<rparr>\<rparr>"
  by (cases e) (auto simp: route_defs io_defs required_present_def validation_message_def)

lemma gateway_rejected:
  "required_present e q \<Longrightarrow> fetch (upstream_url e q) = Rejected m \<Longrightarrow>
   gateway e fetch q =
     \<lparr>fetched = [upstream_url e q], console = [(log_label e, FetchError m)],
      sent = Some \<lparr>statusCode = 500, body = JsonBody (JObj [(''error'', JStr (failure_message e))])\<rparr>\<rparr>"
  by (cases e)
     (simp_all add: route_defs io_defs required_present_def failure_message_def upstream_url_def
        log_label_def)

lemma gateway_not_ok:
  "required_present e q \<Longrightarrow> fetch (upstream_url e q) = Resolved r \<Longrightarrow> \<not> ok r \<Longrightarrow>
   gateway e fetch q =
     \<lparr>fetched = [upstream_url e q],
      console = [(log_label e, Error (api_name e @ '' API Error: '' @ statusText r))],
      sent = Some \<lparr>statusCode = 500, body = JsonBody (JObj [(''error'', JStr (failure_message e))])\<rparr>\<rparr>"
  by (cases e)
     (simp_all add: route_defs io_defs required_present_def failure_message_def upstream_url_def
        log_label_def api_name_def)

lemma gateway_bad_json:
  "required_present e q \<Longrightarrow> fetch (upstream_url e q) = Resolved r \<Longrightarrow> ok r \<Longrightarrow>
   e \<noteq> NasaEarthImage \<Longrightarrow> json_body r = None \<Longrightarrow>
   gateway e fetch q =
     \<lparr>fetched = [upstream_url e q], console = [(log_label e, JsonParseError)],
      sent = Some \<lparr>statusCode = 500, body = JsonBody (JObj [(''error'', JStr (failure_message e))])\<rparr>\<rparr>"
  by (cases e)
     (simp_all add: route_defs io_defs required_present_def failure_message_def upstream_url_def
        log_label_def)

lemma gateway_json:
  "required_present e q \<Longrightarrow> fetch (upstream_url e q) = Resolved r \<Longrightarrow> ok r \<Longrightarrow>
   e \<noteq> NasaEarthImage \<Longrightarrow> json_body r = Some d \<Longrightarrow>
   gateway e fetch q =
     \<lparr>fetched = [upstream_url e q], console = [],
      sent = Some \<lparr>statusCode = 200, body = JsonBody d\<rparr>\<rparr>"
  by (cases e) (simp_all add: route_defs io_defs required_present_def upstream_url_def)

lemma gateway_image:
  "required_present NasaEarthImage q \<Longrightarrow> fetch (earth_image_url q) = Resolved r \<Longrightarrow> ok r \<Longrightarrow>
   gateway NasaEarthImage fetch q =
     \<lparr>fetched = [earth_image_url q], console = [],
      sent = Some \<lparr>statusCode = 200, body = StreamBody (raw_body r)\<rparr>\<rparr>"
  by (simp add: route_defs io_defs required_present_def)

lemma gateway_fetched:
  "fetched (gateway e fetch q) = (if required_present e q then [upstream_url e q] else [])"
proof (cases "required_present e q")
  case False
  then show ?thesis by (simp add: gateway_invalid)
next
  case True
  show ?thesis
  proof (cases "fetch (upstream_url e q)")
    case (Rejected m)
    with True show ?thesis by (simp add: gateway_rejected)
  next
    case (Resolved r)
    show ?thesis
    proof (cases "ok r")
      case False
      with True Resolved show ?thesis by (simp add: gateway_not_ok)
    next
      case ok: True
      show ?thesis
      proof (cases "e = NasaEarthImage")
        case True
        with \<open>required_present e q\<close> Resolved ok show ?thesis
          by (simp add: gateway_image upstream_url_def)
      next
        case False
        with \<open>required_present e q\<close> Resolved ok show ?thesis
          by (cases "json_body r") (simp_all add: gateway_bad_json gateway_json)
      qed
    qed
  qed
qed

lemma credential_in_url: "suffix (credential e) (upstream_url e q)"
proof (cases e)
  case N2yoAbove
  have "suffix API_KEYS_N2YO (above_url q)"
    unfolding above_url_def by (intro suffix_appendI suffix_order.refl)
  with N2yoAbove show ?thesis by (simp add: credential_def upstream_url_def)
next
  case N2yoPasses
  have "suffix API_KEYS_N2YO (passes_url q)"
    unfolding passes_url_def by (intro suffix_appendI suffix_order.refl)
  with N2yoPasses show ?thesis by (simp add: credential_def upstream_url_def)
next
  case NasaEarthImage
  have "suffix API_KEYS_NASA (earth_image_url q)"
    unfolding earth_image_url_def by (intro suffix_appendI suffix_order.refl)
  with NasaEarthImage show ?thesis by (simp add: credential_def upstream_url_def)
next
  case Weather
  have "suffix API_KEYS_OPENWEATHER (weather_url q)"
    unfolding weather_url_def by (intro suffix_appendI suffix_order.refl)
  with Weather show ?thesis by (simp add: credential_def upstream_url_def)
qed

lemma nine_in_keys:
  "k \<in> set [API_KEYS_N2YO, API_KEYS_NASA, API_KEYS_OPENWEATHER] \<Longrightarrow> CHR ''9'' \<in> set k"
  by (auto simp: API_KEYS_N2YO_def API_KEYS_NASA_def API_KEYS_OPENWEATHER_def)

lemma nine_not_in_messages:
  "CHR ''9'' \<notin> set (validation_message e)" "CHR ''9'' \<notin> set (failure_message e)"
  by (cases e; simp add: validation_message_def failure_message_def)+

lemma keys_not_in_messages:
  assumes "k \<in> set [API_KEYS_N2YO, API_KEYS_NASA, API_KEYS_OPENWEATHER]"
  shows "\<not> sublist k (validation_message e)" "\<not> sublist k (failure_message e)"
  using nine_in_keys [OF assms] nine_not_in_messages [of e] set_mono_sublist [of k]
  by blast+

lemma gateway_error_reply:
  assumes "sent (gateway e fetch q) = Some r" and "statusCode r \<noteq> 200"
  shows "body r = JsonBody (JObj [(''error'', JStr (validation_message e))])
         \<or> body r = JsonBody (JObj [(''error'', JStr (failure_message e))])"
proof (cases "required_present e q")
  case False
  with assms show ?thesis by (auto simp: gateway_invalid)
next
  case True
  show ?thesis
  proof (cases "fetch (upstream_url e q)")
    case (Rejected m)
    with True assms show ?thesis by (auto simp: gateway_rejected)
  next
    case (Resolved x)
    show ?thesis
    proof (cases "ok x")
      case False
      with True Resolved assms show ?thesis by (auto simp: gateway_not_ok)
    next
      case ok: True
      show ?thesis
      proof (cases "e = NasaEarthImage")
        case True
        with \<open>required_present e q\<close> Resolved ok assms show ?thesis
          by (auto simp: gateway_image upstream_url_def)
      next
        case False
        with \<open>required_present e q\<close> Resolved ok assms show ?thesis
          by (cases "json_body x") (auto simp: gateway_bad_json gateway_json)
      qed
    qed
  qed
qed

lemma gateway_status_valid:
  assumes "required_present e q"
  shows "map_option statusCode (sent (gateway e fetch q)) \<in> {Some 200, Some 500}"
proof (cases "fetch (upstream_url e q)")
  case (Rejected m)
  with assms show ?thesis by (simp add: gateway_rejected)
next
  case (Resolved x)
  show ?thesis
  proof (cases "ok x")
    case False
    with assms Resolved show ?thesis by (simp add: gateway_not_ok)
  next
    case ok: True
    show ?thesis
    proof (cases "e = NasaEarthImage")
      case True
      with assms Resolved ok show ?thesis by (simp add: gateway_image upstream_url_def)
    next
      case False
      with assms Resolved ok show ?thesis
        by (cases "json_body x") (simp_all add: gateway_bad_json gateway_json)
    qed
  qed
qed

subsection \<open>Validation\<close>

text \<open>
  C1. On every gateway endpoint, a request whose latitude or longitude is missing
  (and, on the pass-prediction endpoint, whose satellite id is missing) is answered
  with status 400 and a JSON object with an \<open>error\<close> field, and no upstream call is
  made. Missing means \<open>undefined\<close> or empty, as \<open>!x\<close> tests it.
\<close>

theorem missing_parameter_400:
  assumes "falsy (lat q) \<or> falsy (lng q) \<or> (e = N2yoPasses \<and> falsy (satId q))"
  shows "\<exists>msg. sent (gateway e fetch q)
                 = Some \<lparr>statusCode = 400, body = JsonBody (JObj [(''error'', JStr msg)])\<rparr>
               \<and> fetched (gateway e fetch q) = []"
proof -
  from assms have "\<not> required_present e q"
    by (auto simp: required_present_def)
  then show ?thesis by (simp add: gateway_invalid)
qed

theorem missing_parameter_400_witness:
  "falsy (lat q_no_lat)
   \<and> sent (gateway Weather upstream_down q_no_lat)
       = Some \<lparr>statusCode = 400,
               body = JsonBody (JObj [(''error'', JStr ''Latitude and longitude are required.'')])\<rparr>
   \<and> fetched (gateway Weather upstream_down q_no_lat) = []"
proof -
  have 1: "falsy (lat q_no_lat)"
    by (simp add: q_no_lat_def falsy_def)
  then have 2: "\<not> required_present Weather q_no_lat"
    by (simp add: required_present_def)
  from missing_parameter_400 [of q_no_lat Weather upstream_down] 1 2 show ?thesis
    by (simp add: gateway_invalid validation_message_def)
qed

text \<open>
  C10. Validation only tests presence. The request \<open>lat=999&lng=abc\<close> (a latitude out
  of range, a longitude that is not a number) passes validation on all four routes:
  each calls its upstream once, with \<open>999\<close> and \<open>abc\<close> copied into the URL as they
  are, and the reply is a 200 or a 500, never a 400.
\<close>

theorem validation_is_presence_only:
  "fetched (gateway N2yoAbove fetch q_odd)
     = [''https://api.n2yo.com/rest/v1/satellite/above/999/abc/0/70/0/?apiKey='' @ API_KEYS_N2YO]
   \<and> fetched (gateway N2yoPasses fetch q_odd)
     = [''https://api.n2yo.com/rest/v1/satellite/radiopasses/25544/999/abc/0/7/10/?apiKey=''
        @ API_KEYS_N2YO]
   \<and> fetched (gateway NasaEarthImage fetch q_odd)
     = [''https://api.nasa.gov/planetary/earth/imagery?lat=999&lon=abc&dim=0.2&api_key=''
        @ API_KEYS_NASA]
   \<and> fetched (gateway Weather fetch q_odd)
     = [''https://api.openweathermap.org/data/2.5/weather?lat=999&lon=abc&units=metric&appid=''
        @ API_KEYS_OPENWEATHER]
   \<and> map_option statusCode (sent (gateway N2yoAbove fetch q_odd)) \<in> {Some 200, Some 500}
   \<and> map_option statusCode (sent (gateway N2yoPasses fetch q_odd)) \<in> {Some 200, Some 500}
   \<and> map_option statusCode (sent (gateway NasaEarthImage fetch q_odd)) \<in> {Some 200, Some 500}
   \<and> map_option statusCode (sent (gateway Weather fetch q_odd)) \<in> {Some 200, Some 500}"
proof -
  have valid: "required_present e q_odd" for e
    by (simp add: required_present_def q_odd_def falsy_def)
  have urls:
    "upstream_url N2yoAbove q_odd
       = ''https://api.n2yo.com/rest/v1/satellite/above/999/abc/0/70/0/?apiKey='' @ API_KEYS_N2YO"
    "upstream_url N2yoPasses q_odd
       = ''https://api.n2yo.com/rest/v1/satellite/radiopasses/25544/999/abc/0/7/10/?apiKey=''
         @ API_KEYS_N2YO"
    "upstream_url NasaEarthImage q_odd
       = ''https://api.nasa.gov/planetary/earth/imagery?lat=999&lon=abc&dim=0.2&api_key=''
         @ API_KEYS_NASA"
    "upstream_url Weather q_odd
       = ''https://api.openweathermap.org/data/2.5/weather?lat=999&lon=abc&units=metric&appid=''
         @ API_KEYS_OPENWEATHER"
    by (simp_all add: upstream_url_def above_url_def passes_url_def earth_image_url_def
          weather_url_def q_odd_def interp_def)
  show ?thesis
    using gateway_status_valid [OF valid, of _ fetch]
    by (simp only: gateway_fetched valid if_True urls simp_thms)
qed

subsection \<open>Upstream failure\<close>

text \<open>
  C2. On every gateway endpoint, for a request that has its required parameters: when
  the upstream answers the route's call with a response that is not \<open>ok\<close>, or the
  call itself fails, the caller receives status 500 and the JSON object \<open>{error: m}\<close>,
  where \<open>m\<close> is the route's fixed message; the upstream status text goes to the
  server's console only, and the upstream is called once.
\<close>

theorem upstream_failure_500:
  assumes "required_present e q" and "upstream_fails (fetch (upstream_url e q))"
  shows "sent (gateway e fetch q)
           = Some \<lparr>statusCode = 500, body = JsonBody (JObj [(''error'', JStr (failure_message e))])\<rparr>
         \<and> console (gateway e fetch q)
           = [(log_label e,
               case fetch (upstream_url e q) of
                 Rejected m \<Rightarrow> FetchError m
               | Resolved r \<Rightarrow> Error (api_name e @ '' API Error: '' @ statusText r))]
         \<and> fetched (gateway e fetch q) = [upstream_url e q]"
proof (cases "fetch (upstream_url e q)")
  case (Rejected m)
  with assms(1) show ?thesis by (simp add: gateway_rejected)
next
  case (Resolved r)
  with assms(2) have "\<not> ok r" by (simp add: upstream_fails_def)
  with assms(1) Resolved show ?thesis by (simp add: gateway_not_ok)
qed

theorem upstream_failure_500_witness:
  "required_present N2yoAbove q_egypt \<and> required_present N2yoPasses q_egypt
   \<and> required_present NasaEarthImage q_egypt \<and> required_present Weather q_egypt
   \<and> upstream_fails (upstream_down (upstream_url N2yoAbove q_egypt))
   \<and> sent (gateway N2yoAbove upstream_down q_egypt)
       = Some \<lparr>statusCode = 500,
               body = JsonBody (JObj [(''error'', JStr ''Failed to fetch satellite data.'')])\<rparr>
   \<and> console (gateway N2yoAbove upstream_down q_egypt)
       = [(''N2YO Above error:'', FetchError ''ECONNREFUSED'')]
   \<and> upstream_fails (upstream_forbidden (upstream_url N2yoPasses q_egypt))
   \<and> sent (gateway N2yoPasses upstream_forbidden q_egypt)
       = Some \<lparr>statusCode = 500,
               body = JsonBody (JObj [(''error'', JStr ''Failed to fetch pass data.'')])\<rparr>
   \<and> console (gateway N2yoPasses upstream_forbidden q_egypt)
       = [(''N2YO Passes error:'', Error ''N2YO API Error: Forbidden'')]
   \<and> upstream_fails (upstream_forbidden (upstream_url NasaEarthImage q_egypt))
   \<and> sent (gateway NasaEarthImage upstream_forbidden q_egypt)
       = Some \<lparr>statusCode = 500,
               body = JsonBody (JObj [(''error'', JStr ''Failed to fetch NASA image.'')])\<rparr>
   \<and> console (gateway NasaEarthImage upstream_forbidden q_egypt)
       = [(''NASA Earth Image error:'', Error ''NASA API Error: Forbidden'')]
   \<and> upstream_fails (upstream_forbidden (upstream_url Weather q_egypt))
   \<and> sent (gateway Weather upstream_forbidden q_egypt)
       = Some \<lparr>statusCode = 500,
               body = JsonBody (JObj [(''error'', JStr ''Failed to fetch weather data.'')])\<rparr>
   \<and> console (gateway Weather upstream_forbidden q_egypt)
       = [(''Weather error:'', Error ''OpenWeatherMap API Error: Forbidden'')]"
proof -
  have valid: "required_present e q_egypt" for e
    by (simp add: required_present_def q_egypt_def falsy_def)
  have down: "upstream_fails (upstream_down u)" for u
    by (simp add: upstream_fails_def upstream_down_def)
  have forbidden: "upstream_fails (upstream_forbidden u)" for u
    by (simp add: upstream_fails_def upstream_forbidden_def)
  have thrown:
    "(case upstream_down u of
        Rejected m \<Rightarrow> FetchError m
      | Resolved r \<Rightarrow> Error (api_name e @ '' API Error: '' @ statusText r))
     = FetchError ''ECONNREFUSED''"
    "(case upstream_forbidden u of
        Rejected m \<Rightarrow> FetchError m
      | Resolved r \<Rightarrow> Error (api_name e @ '' API Error: '' @ statusText r))
     = Error (api_name e @ '' API Error: Forbidden'')" for u e
    by (simp_all add: upstream_down_def upstream_forbidden_def)
  from upstream_failure_500 [OF valid down, of N2yoAbove]
       upstream_failure_500 [OF valid forbidden, of N2yoPasses]
       upstream_failure_500 [OF valid forbidden, of NasaEarthImage]
       upstream_failure_500 [OF valid forbidden, of Weather]
       valid down forbidden
  show ?thesis
    unfolding thrown by (simp add: failure_message_def log_label_def api_name_def)
qed

subsection \<open>One upstream call, with the credential\<close>

text \<open>
  C3, as stated, fails on the pass-prediction route: with both coordinates present
  and no satellite id, the handler answers 400 and calls no upstream.
\<close>

theorem one_upstream_call_counterexample:
  "\<not> falsy (lat q_no_satId) \<and> \<not> falsy (lng q_no_satId)
   \<and> fetched (gateway N2yoPasses upstream_down q_no_satId) = []"
  by (simp add: gateway_fetched required_present_def q_no_satId_def falsy_def)

text \<open>
  C3, amended. For every request with all required parameters of the route present
  and non-empty (both coordinates, and the satellite id on the pass-prediction
  route), the route calls its upstream exactly once, whatever the upstream answers;
  the URL of the call ends with the route's key; and when the reply is an error
  (its status is not 200), its body is \<open>{error: msg}\<close> where no key occurs in \<open>msg\<close>.
\<close>

theorem one_upstream_call_with_credential:
  assumes "required_present e q"
  shows "fetched (gateway e fetch q) = [upstream_url e q]
         \<and> suffix (credential e) (upstream_url e q)
         \<and> (\<forall>r k. sent (gateway e fetch q) = Some r \<and> statusCode r \<noteq> 200
                   \<and> k \<in> set [API_KEYS_N2YO, API_KEYS_NASA, API_KEYS_OPENWEATHER]
               \<longrightarrow> (\<exists>msg. body r = JsonBody (JObj [(''error'', JStr msg)]) \<and> \<not> sublist k msg))"
  using assms gateway_error_reply [of e fetch q] keys_not_in_messages [of _ e]
  by (auto simp: gateway_fetched credential_in_url)

theorem one_upstream_call_with_credential_witness:
  "required_present Weather q_egypt
   \<and> fetched (gateway Weather upstream_forbidden q_egypt)
       = [''https://api.openweathermap.org/data/2.5/weather?lat=26.1626&lon=32.7094&units=metric&appid=''
          @ API_KEYS_OPENWEATHER]
   \<and> sent (gateway Weather upstream_forbidden q_egypt)
       = Some \<lparr>statusCode = 500,
               body = JsonBody (JObj [(''error'', JStr ''Failed to fetch weather data.'')])\<rparr>
   \<and> \<not> sublist API_KEYS_OPENWEATHER ''Failed to fetch weather data.''"
proof -
  let ?r = "\<lparr>statusCode = 500,
              body = JsonBody (JObj [(''error'', JStr ''Failed to fetch weather data.'')])\<rparr>"
  have valid: "required_present Weather q_egypt"
    by (simp add: required_present_def q_egypt_def falsy_def)
  have url: "upstream_url Weather q_egypt
               = ''https://api.openweathermap.org/data/2.5/weather?lat=26.1626&lon=32.7094&units=metric&appid=''
                 @ API_KEYS_OPENWEATHER"
    by (simp add: upstream_url_def weather_url_def q_egypt_def interp_def)
  have sent: "sent (gateway Weather upstream_forbidden q_egypt) = Some ?r"
    using valid
    by (simp add: gateway_not_ok [where r = "\<lparr>ok = False, status = 403, statusText = ''Forbidden'',
                      json_body = Some (JObj [(''error'', JStr ''Invalid API Key!'')]), raw_body = []\<rparr>"]
          upstream_forbidden_def failure_message_def)
  note inst = one_upstream_call_with_credential [OF valid, of upstream_forbidden]
  from inst have calls: "fetched (gateway Weather upstream_forbidden q_egypt) = [upstream_url Weather q_egypt]"
    by blast
  from inst have "sent (gateway Weather upstream_forbidden q_egypt) = Some ?r \<and> statusCode ?r \<noteq> 200
       \<and> API_KEYS_OPENWEATHER \<in> set [API_KEYS_N2YO, API_KEYS_NASA, API_KEYS_OPENWEATHER]
     \<longrightarrow> (\<exists>msg. body ?r = JsonBody (JObj [(''error'', JStr msg)]) \<and> \<not> sublist API_KEYS_OPENWEATHER msg)"
    by blast
  with sent have "\<not> sublist API_KEYS_OPENWEATHER ''Failed to fetch weather data.''"
    by simp
  with valid calls url sent show ?thesis by simp
qed

subsection \<open>Earth image\<close>

text \<open>
  C4. When the upstream call of the earth-image route succeeds, the caller receives
  status 200 and, as the body, exactly the bytes of the upstream body: a byte stream,
  not JSON.
\<close>

theorem earth_image_relays_bytes:
  assumes "url \<in> set (fetched (gateway NasaEarthImage fetch q))"
    and "fetch url = Resolved r" and "ok r"
  shows "sent (gateway NasaEarthImage fetch q)
           = Some \<lparr>statusCode = 200, body = StreamBody (raw_body r)\<rparr>"
proof -
  from assms(1) have "required_present NasaEarthImage q" and "url = earth_image_url q"
    by (auto simp: gateway_fetched upstream_url_def split: if_splits)
  with assms(2,3) show ?thesis by (simp add: gateway_image)
qed

theorem earth_image_relays_bytes_witness:
  "earth_image_url q_egypt \<in> set (fetched (gateway NasaEarthImage upstream_image q_egypt))
   \<and> sent (gateway NasaEarthImage upstream_image q_egypt)
       = Some \<lparr>statusCode = 200,
               body = StreamBody [CHR 0x89, CHR ''P'', CHR ''N'', CHR ''G'', CHR 0x0D, CHR 0x0A]\<rparr>"
proof -
  let ?r = "\<lparr>ok = True, status = 200, statusText = ''OK'', json_body = None :: json option,
              raw_body = [CHR 0x89, CHR ''P'', CHR ''N'', CHR ''G'', CHR 0x0D, CHR 0x0A]\<rparr>"
  have valid: "required_present NasaEarthImage q_egypt"
    by (simp add: required_present_def q_egypt_def falsy_def)
  have 1: "earth_image_url q_egypt \<in> set (fetched (gateway NasaEarthImage upstream_image q_egypt))"
    using valid by (simp add: gateway_fetched upstream_url_def)
  have 2: "upstream_image (earth_image_url q_egypt) = Resolved ?r"
    by (simp add: upstream_image_def)
  have 3: "ok ?r" by simp
  from earth_image_relays_bytes [OF 1 2 3] 1 show ?thesis by simp
qed

section \<open>Properties of the map client\<close>

subsection \<open>Visibility label\<close>

text \<open>
  C5. The visibility label of a pass popup is \<open>excellent\<close> when the maximum elevation
  is above 30, \<open>good\<close> when it is above 15 and not above 30, and \<open>fair\<close> otherwise;
  the label text follows the class. At 31, 20 and 10 the labels are \<open>excellent\<close>,
  \<open>good\<close> and \<open>fair\<close>.
\<close>

theorem visibility_label:
  "(maxEl p > 30 \<longrightarrow>
      pp_status_class (createPassPopup pf name p t) = ''excellent''
      \<and> pp_status_text (createPassPopup pf name p t) = ''Excellent visibility'')
   \<and> (maxEl p > 15 \<and> \<not> maxEl p > 30 \<longrightarrow>
      pp_status_class (createPassPopup pf name p t) = ''good''
      \<and> pp_status_text (createPassPopup pf name p t) = ''Good visibility'')
   \<and> (\<not> maxEl p > 15 \<longrightarrow>
      pp_status_class (createPassPopup pf name p t) = ''fair''
      \<and> pp_status_text (createPassPopup pf name p t) = ''Fair visibility'')"
  by (simp add: createPassPopup_def Let_def)

theorem visibility_label_witness:
  "pp_status_class (createPassPopup sample_platform ''ISS'' (sample_pass 31) 0) = ''excellent''
   \<and> pp_status_class (createPassPopup sample_platform ''ISS'' (sample_pass 20) 0) = ''good''
   \<and> pp_status_class (createPassPopup sample_platform ''ISS'' (sample_pass 10) 0) = ''fair''"
  using visibility_label [of "sample_pass 31" sample_platform "''ISS''" 0]
    visibility_label [of "sample_pass 20" sample_platform "''ISS''" 0]
    visibility_label [of "sample_pass 10" sample_platform "''ISS''" 0]
  by (simp add: sample_pass_def)

subsection \<open>Empty scan\<close>

text \<open>
  C6. With coordinates in both inputs and an \<open>ok\<close> response whose payload has an empty
  \<open>above\<close> list or no \<open>above\<close> field, the satellite list container shows the
  empty-state panel; no alert is raised and nothing is logged as an error.
\<close>

theorem empty_above_renders_empty_state:
  assumes "latInput s \<noteq> []" and "lngInput s \<noteq> []"
    and "ok r" and "json_body r = Some data"
    and "above data = None \<or> above data = Some []"
  shows "satList (findSatellitesAbove pf (Resolved r) s) = NoSatellites
         \<and> alerts (findSatellitesAbove pf (Resolved r) s) = alerts s
         \<and> errors (findSatellitesAbove pf (Resolved r) s) = errors s"
  using assms
  by (auto simp: findSatellitesAbove_def renderSatelliteList_def Let_def)

theorem empty_above_renders_empty_state_witness:
  "latInput s0 \<noteq> [] \<and> lngInput s0 \<noteq> []
   \<and> satList (findSatellitesAbove sample_platform (Resolved (ok_with \<lparr>above = None\<rparr>)) s0) = NoSatellites
   \<and> alerts (findSatellitesAbove sample_platform (Resolved (ok_with \<lparr>above = None\<rparr>)) s0) = []
   \<and> satList (findSatellitesAbove sample_platform (Resolved (ok_with \<lparr>above = Some []\<rparr>)) s0) = NoSatellites
   \<and> alerts (findSatellitesAbove sample_platform (Resolved (ok_with \<lparr>above = Some []\<rparr>)) s0) = []"
proof -
  have i: "latInput s0 \<noteq> []" "lngInput s0 \<noteq> []" by (simp_all add: s0_def)
  have a: "alerts s0 = []" by (simp add: s0_def)
  have r: "ok (ok_with d)" "json_body (ok_with d) = Some d" for d :: above_data
    by (simp_all add: ok_with_def)
  from empty_above_renders_empty_state [OF i r, of "\<lparr>above = None\<rparr>" sample_platform]
       empty_above_renders_empty_state [OF i r, of "\<lparr>above = Some []\<rparr>" sample_platform]
       i a
  show ?thesis by simp
qed

subsection \<open>Country search without a result\<close>

text \<open>
  C7. With a country name entered (the trimmed input is not empty): when the lookup
  answers with a status that is not \<open>ok\<close> (no record matches), with an empty
  array, or with a first record that has
  neither capital coordinates nor country coordinates, the alert
  \<open>Country not found. Please check spelling.\<close> is shown and the marker layer and the
  map view stay as they were. Whatever the lookup gives, the marker layer changes only
  when the first record has coordinates.
\<close>

theorem country_not_found_keeps_markers:
  "(String_trim pf (countryInput s) \<noteq> []
      \<and> (\<not> ok r \<or> json_body r = Some []
          \<or> (\<exists>c cs. json_body r = Some (c # cs) \<and> capitalInfo_latlng c = None \<and> latlng c = None))
    \<longrightarrow> alerts (searchCountry pf (Resolved r) s)
          = alerts s @ [(''Country not found. Please check spelling.'', ''error'')]
        \<and> satMarkersLayer (searchCountry pf (Resolved r) s) = satMarkersLayer s
        \<and> mapView (searchCountry pf (Resolved r) s) = mapView s)
   \<and> (satMarkersLayer (searchCountry pf outcome s) \<noteq> satMarkersLayer s
    \<longrightarrow> (\<exists>r' c cs ll. outcome = Resolved r' \<and> ok r' \<and> json_body r' = Some (c # cs)
           \<and> (capitalInfo_latlng c = Some ll \<or> latlng c = Some ll)))"
  by (auto simp: searchCountry_def Let_def showAlert_def log_error_def clearLayers_def addTo_def
        updateLocationStatus_def
      split: fetch_result.splits option.splits list.splits if_splits)

theorem country_not_found_keeps_markers_witness:
  "countryInput s0 = '' Atlantis ''
   \<and> String_trim sample_platform (countryInput s0) = ''Atlantis''
   \<and> alerts (searchCountry sample_platform (Resolved not_found) s0)
       = [(''Country not found. Please check spelling.'', ''error'')]
   \<and> satMarkersLayer (searchCountry sample_platform (Resolved not_found) s0) = satMarkersLayer s0
   \<and> alerts (searchCountry sample_platform (Resolved (ok_with [atlantis])) s0)
       = [(''Country not found. Please check spelling.'', ''error'')]
   \<and> satMarkersLayer (searchCountry sample_platform (Resolved (ok_with [atlantis])) s0)
       = satMarkersLayer s0
   \<and> satMarkersLayer (searchCountry sample_platform (Resolved (ok_with [egypt])) s0)
       \<noteq> satMarkersLayer s0
   \<and> capitalInfo_latlng egypt = Some (30.05, 31.25)"
proof -
  have i: "countryInput s0 = '' Atlantis ''"
    by (simp add: s0_def)
  have t: "String_trim sample_platform x = ''Atlantis''" for x
    by (simp add: sample_platform_def)
  have a: "alerts s0 = []" by (simp add: s0_def)
  have 1: "\<not> ok (not_found :: country list response)"
    by (simp add: not_found_def)
  have 2: "json_body (ok_with [atlantis]) = Some (atlantis # []) \<and> capitalInfo_latlng atlantis = None
           \<and> latlng atlantis = None"
    by (simp add: ok_with_def atlantis_def)
  have "satMarkersLayer (searchCountry sample_platform (Resolved (ok_with [egypt])) s0)
          = [Marker (30.05, 31.25) ''country-marker'' (CountryFlag default_flag)
               (CountryPopup (createCountryPopup sample_platform egypt))]"
    by (simp add: searchCountry_def t Let_def ok_with_def egypt_def clearLayers_def addTo_def
          updateLocationStatus_def)
  then have 3: "satMarkersLayer (searchCountry sample_platform (Resolved (ok_with [egypt])) s0)
                  \<noteq> satMarkersLayer s0"
    by (simp add: s0_def)
  have 4: "capitalInfo_latlng egypt = Some (30.05, 31.25)"
    by (simp add: egypt_def)
  from country_not_found_keeps_markers
         [where pf = sample_platform and s = s0 and r = not_found]
       country_not_found_keeps_markers
         [where pf = sample_platform and s = s0 and r = "ok_with [atlantis]"]
       country_not_found_keeps_markers
         [where pf = sample_platform and s = s0 and outcome = "Resolved (ok_with [egypt])"]
       i t a 1 2 3 4
  show ?thesis by simp
qed

subsection \<open>Only the first pass\<close>

text \<open>
  C8. With an \<open>ok\<close> response whose \<open>passes\<close> list is not empty, tracking gives the
  result it gives on the list cut down to its first entry, and the layer holds the
  ground marker with the popup of the first pass, the arc around the current
  location, and its start and end markers. With an empty or absent list, the notice
  \<open>No upcoming passes found for\<close> the name is shown and the marker layer is unchanged.
\<close>

theorem track_uses_first_pass_only:
  "(ok r \<and> json_body r = Some d \<and> passes d = Some (p # rest) \<longrightarrow>
      trackSatelliteById pf (Resolved r) name s
        = trackSatelliteById pf (Resolved (r\<lparr>json_body := Some (d\<lparr>passes := Some [p]\<rparr>)\<rparr>)) name s
      \<and> satMarkersLayer (trackSatelliteById pf (Resolved r) name s)
        = [Marker (currentLocation s) ''ground-station-marker'' StationIcon
             (PassPopup (createPassPopup pf name p (startUTC p * 1000))),
           Polyline (trackPoints pf (fst (currentLocation s)) (snd (currentLocation s))),
           Marker (trackPoints pf (fst (currentLocation s)) (snd (currentLocation s)) ! 0)
             ''pass-marker start-marker'' StartLabel NoPopup,
           Marker (trackPoints pf (fst (currentLocation s)) (snd (currentLocation s)) ! 20)
             ''pass-marker end-marker'' EndLabel NoPopup])
   \<and> (ok r \<and> json_body r = Some d \<and> (passes d = None \<or> passes d = Some []) \<longrightarrow>
      alerts (trackSatelliteById pf (Resolved r) name s)
        = alerts s @ [(''No upcoming passes found for '' @ name, ''info'')]
      \<and> satMarkersLayer (trackSatelliteById pf (Resolved r) name s) = satMarkersLayer s)"
  by (auto simp: trackSatelliteById_def Let_def showAlert_def clearLayers_def addTo_def
        updateLocationStatus_def visualizeSatellitePass_def trackPoints_def
      split: prod.splits)

theorem track_uses_first_pass_only_witness:
  "trackSatelliteById sample_platform (Resolved (ok_with \<lparr>passes = Some [sample_pass 31, sample_pass 10]\<rparr>)) ''ISS'' s0
     = trackSatelliteById sample_platform (Resolved (ok_with \<lparr>passes = Some [sample_pass 31]\<rparr>)) ''ISS'' s0
   \<and> alerts (trackSatelliteById sample_platform (Resolved (ok_with \<lparr>passes = Some []\<rparr>)) ''ISS'' s0)
       = [(''No upcoming passes found for ISS'', ''info'')]
   \<and> satMarkersLayer (trackSatelliteById sample_platform (Resolved (ok_with \<lparr>passes = Some []\<rparr>)) ''ISS'' s0)
       = satMarkersLayer s0
   \<and> alerts (trackSatelliteById sample_platform (Resolved (ok_with \<lparr>passes = None\<rparr>)) ''ISS'' s0)
       = [(''No upcoming passes found for ISS'', ''info'')]
   \<and> satMarkersLayer (trackSatelliteById sample_platform (Resolved (ok_with \<lparr>passes = None\<rparr>)) ''ISS'' s0)
       = satMarkersLayer s0"
proof -
  have a: "alerts s0 = []" by (simp add: s0_def)
  have r: "ok (ok_with d)" "json_body (ok_with d) = Some d"
    "(ok_with d)\<lparr>json_body := Some d'\<rparr> = ok_with d'" for d d' :: passes_data
    by (simp_all add: ok_with_def)
  from track_uses_first_pass_only
         [of "ok_with \<lparr>passes = Some [sample_pass 31, sample_pass 10]\<rparr>"
             "\<lparr>passes = Some [sample_pass 31, sample_pass 10]\<rparr>" "sample_pass 31" "[sample_pass 10]"
             sample_platform "''ISS''" s0]
       track_uses_first_pass_only
         [of "ok_with \<lparr>passes = Some []\<rparr>" "\<lparr>passes = Some []\<rparr>" _ _ sample_platform "''ISS''" s0]
       track_uses_first_pass_only
         [of "ok_with \<lparr>passes = None\<rparr>" "\<lparr>passes = None\<rparr>" _ _ sample_platform "''ISS''" s0]
       a r
  show ?thesis by simp
qed

subsection \<open>Weather panel\<close>

text \<open>
  C9, as stated, fails: without a \<open>visibility\<close> field the panel shows \<open>N/A\<close>, not
  \<open>unknown\<close>.
\<close>

theorem weather_visibility_counterexample:
  "visibility (qena_weather None) = None
   \<and> displayWeatherData sample_platform (qena_weather None) s0
       = Inr (s0\<lparr>weatherBox := WeatherData
                \<lparr>wp_location = ''Qena'', wp_condition = ''clear sky'', wp_temp = 32,
                 wp_windSpeed = 3.6, wp_humidity = 18, wp_visibility = ''N/A''\<rparr>\<rparr>)
   \<and> ''N/A'' \<noteq> ''unknown''"
  by (simp add: displayWeatherData_def qena_weather_def Math_round_def)

text \<open>
  C9, amended. For a payload with at least one weather condition, the panel shows the
  rounded temperature, the description of the first condition, the wind speed, the
  humidity, and for the visibility: \<open>N/A\<close> when the field is absent, and the field
  divided by 1000, to one decimal, when it is present and not zero.
\<close>

theorem weather_render:
  assumes "weather data = c # cs"
  shows "\<exists>w. displayWeatherData pf data s = Inr (s\<lparr>weatherBox := WeatherData w\<rparr>)
           \<and> wp_temp w = Math_round (temp (main data))
           \<and> wp_condition w = description c
           \<and> wp_windSpeed w = speed (wind data)
           \<and> wp_humidity w = humidity (main data)
           \<and> (visibility data = None \<longrightarrow> wp_visibility w = ''N/A'')
           \<and> (\<forall>v. visibility data = Some v \<and> v \<noteq> 0 \<longrightarrow> wp_visibility w = toFixed pf (v / 1000) 1)"
  using assms by (auto simp: displayWeatherData_def)


theorem weather_render_witness:
  "weather (qena_weather None) = [\<lparr>description = ''clear sky''\<rparr>]
   \<and> (\<exists>w. displayWeatherData sample_platform (qena_weather None) s0
              = Inr (s0\<lparr>weatherBox := WeatherData w\<rparr>)
          \<and> wp_temp w = 32 \<and> wp_condition w = ''clear sky'' \<and> wp_windSpeed w = 3.6
          \<and> wp_humidity w = 18 \<and> wp_visibility w = ''N/A'')
   \<and> (\<exists>w. displayWeatherData sample_platform (qena_weather (Some 10000)) s0
              = Inr (s0\<lparr>weatherBox := WeatherData w\<rparr>)
          \<and> wp_temp w = 32 \<and> wp_condition w = ''clear sky'' \<and> wp_windSpeed w = 3.6
          \<and> wp_humidity w = 18 \<and> wp_visibility w = ''10.0'')"
proof -
  have w: "weather (qena_weather v) = \<lparr>description = ''clear sky''\<rparr> # []" for v
    by (simp add: qena_weather_def)
  have f: "temp (main (qena_weather v)) = 31.6" "speed (wind (qena_weather v)) = 3.6"
    "humidity (main (qena_weather v)) = 18" "visibility (qena_weather v) = v" for v
    by (simp_all add: qena_weather_def)
  have m: "Math_round 31.6 = 32" by (simp add: Math_round_def)
  have t: "toFixed sample_platform x d = ''10.0''" for x d
    by (simp add: sample_platform_def)
  from weather_render [where data = "qena_weather None" and pf = sample_platform and s = s0, OF w]
       weather_render [where data = "qena_weather (Some 10000)" and pf = sample_platform and s = s0, OF w]
       w [of None]
  show ?thesis
    unfolding f m t by simp
qed

end
